theory Spec2Isabelle
  imports Complex_Main
begin

unbundle bit_operations_syntax

section \<open>Connection status of a device (device.py)\<close>

text \<open>
  \<^verbatim>\<open>class ConnectionStatus(enum.Flag)\<close> has the three members below. A value of a Python
  \<^verbatim>\<open>enum.Flag\<close> is a combination of members, so a status is a set of members: \<^verbatim>\<open>&\<close> is
  intersection, \<^verbatim>\<open>|\<close> is union, \<^verbatim>\<open>~\<close> is the complement within the three members, and a
  status is falsy exactly when it is the empty combination.
\<close>

datatype flag = OFFLINE | IOT_CONNECTED | BT_CONNECTED

type_synonym ConnectionStatus = "flag set"

text \<open>\<^verbatim>\<open>class IotConnectionStatus(enum.Enum)\<close>; its members are prefixed, since
  \<^verbatim>\<open>OFFLINE\<close> is a member of both enumerations.\<close>

datatype IotConnectionStatus = Iot_UNKNOWN | Iot_ONLINE | Iot_OFFLINE | Iot_NO_IOT

text \<open>The concrete classes of the hierarchy
  \<^verbatim>\<open>GoveeDevice > ToggleableGoveeDevice > GoveeLight > GoveeRgbLight\<close>:
  \<^verbatim>\<open>GoveeWhiteBulb(GoveeLight)\<close>, \<^verbatim>\<open>GoveeBulb(GoveeRgbLight)\<close> and
  \<^verbatim>\<open>GoveeLedStrip(GoveeRgbLight)\<close>.\<close>

datatype device_class = GoveeWhiteBulb | GoveeBulb | GoveeLedStrip

text \<open>
  The attributes of a device object. \<open>'c\<close> is the type of \<^verbatim>\<open>colour.Color\<close> objects (a library
  outside the repository). Attributes a class does not have (colour on a white bulb) stay
  \<open>None\<close> and are never touched. Python floats are idealised as rationals.
\<close>

record 'c device =
  cls :: device_class
  ident :: string
  topic :: string
  sku :: string
  name :: string
  iot_device :: bool
  connection_status :: ConnectionStatus
  on :: "bool option"
  brightness :: "rat option"
  color :: "'c option"
  color_temperature :: "rat option"

text \<open>The chain of \<^verbatim>\<open>__init__\<close> methods: \<^verbatim>\<open>GoveeDevice.__init__\<close> sets the identity and the
  connection status, the subclasses set their attributes to \<^verbatim>\<open>None\<close>.\<close>

definition GoveeDevice_init ::
  "device_class \<Rightarrow> string \<Rightarrow> string \<Rightarrow> string \<Rightarrow> string \<Rightarrow> IotConnectionStatus \<Rightarrow> 'c device" where
  "GoveeDevice_init c idn tpc sk nm iot_connected =
     \<lparr> cls = c, ident = idn, topic = tpc, sku = sk, name = nm,
       iot_device = (iot_connected \<noteq> Iot_NO_IOT),
       connection_status = (if iot_connected = Iot_ONLINE then {IOT_CONNECTED} else {OFFLINE}),
       on = None, brightness = None, color = None, color_temperature = None \<rparr>"

text \<open>\<^verbatim>\<open>GoveeDevice._add_connection_status(self, status)\<close>: returns \<^verbatim>\<open>status_changed\<close> and the
  mutated device.\<close>

definition add_connection_status :: "'c device \<Rightarrow> ConnectionStatus \<Rightarrow> bool \<times> 'c device" where
  "add_connection_status d status =
     (let status_changed = (connection_status d \<inter> status \<noteq> status);
          d1 = d\<lparr>connection_status := connection_status d \<union> status\<rparr>
      in if status \<noteq> {OFFLINE}
         then (True, d1\<lparr>connection_status := connection_status d1 \<inter> - {OFFLINE}\<rparr>)
         else (status_changed, d1))"

text \<open>\<^verbatim>\<open>GoveeDevice._remove_connection_status(self, status)\<close>.\<close>

definition remove_connection_status :: "'c device \<Rightarrow> ConnectionStatus \<Rightarrow> bool \<times> 'c device" where
  "remove_connection_status d status =
     (let status_changed = (connection_status d \<inter> status = status);
          d1 = d\<lparr>connection_status := connection_status d \<inter> - status\<rparr>
      in if connection_status d1 = {}
         then (True, d1\<lparr>connection_status := {OFFLINE}\<rparr>)
         else (status_changed, d1))"

text \<open>A sequence of add and remove calls on one device.\<close>

datatype status_op = Add ConnectionStatus | Remove ConnectionStatus

fun operand :: "status_op \<Rightarrow> ConnectionStatus" where
  "operand (Add s) = s"
| "operand (Remove s) = s"

fun apply_status_op :: "'c device \<Rightarrow> status_op \<Rightarrow> 'c device" where
  "apply_status_op d (Add s) = snd (add_connection_status d s)"
| "apply_status_op d (Remove s) = snd (remove_connection_status d s)"

definition apply_status_ops :: "'c device \<Rightarrow> status_op list \<Rightarrow> 'c device" where
  "apply_status_ops d ops = foldl apply_status_op d ops"

section \<open>Inbound state pushes (device.py, \<^verbatim>\<open>_update_state\<close>)\<close>

text \<open>
  The values \<^verbatim>\<open>json.loads\<close> produces. A JSON object is a Python dict, here an association
  list read with \<open>map_of\<close>; numbers (Python \<^verbatim>\<open>int\<close> and \<^verbatim>\<open>float\<close>) are rationals.
\<close>

datatype json = JNull | JBool bool | JNum rat | JStr string | JArr "json list"
  | JObj "(string \<times> json) list"

text \<open>The exceptions of the modelled code. \<open>ExternalError\<close> stands for an exception raised by
  a library outside the repository (HTTP, broker or radio stack).\<close>

datatype error = KeyError | TypeError | ValueError | GoveeException string | ExternalError string

text \<open>\<^verbatim>\<open>d[k]\<close> on a dict, and \<^verbatim>\<open>v[k]\<close> with a string key on any JSON value: only a dict can
  be subscripted with a string.\<close>

definition dict_getitem :: "(string \<times> json) list \<Rightarrow> string \<Rightarrow> error + json" where
  "dict_getitem d k = (case map_of d k of None \<Rightarrow> Inl KeyError | Some v \<Rightarrow> Inr v)"

fun getitem :: "json \<Rightarrow> string \<Rightarrow> error + json" where
  "getitem (JObj d) k = dict_getitem d k"
| "getitem _ k = Inl TypeError"

text \<open>Truthiness of a value (\<^verbatim>\<open>if v:\<close>).\<close>

fun truthy :: "json \<Rightarrow> bool" where
  "truthy JNull = False"
| "truthy (JBool b) = b"
| "truthy (JNum n) = (n \<noteq> 0)"
| "truthy (JStr s) = (s \<noteq> [])"
| "truthy (JArr xs) = (xs \<noteq> [])"
| "truthy (JObj d) = (d \<noteq> [])"

text \<open>The number a value stands for in arithmetic and in comparisons with numbers:
  \<^verbatim>\<open>bool\<close> is a subclass of \<^verbatim>\<open>int\<close>; any other non-number raises \<^verbatim>\<open>TypeError\<close>.\<close>

fun num_of :: "json \<Rightarrow> error + rat" where
  "num_of (JNum n) = Inr n"
| "num_of (JBool b) = Inr (if b then 1 else 0)"
| "num_of _ = Inl TypeError"

text \<open>\<^verbatim>\<open>v == 1\<close>.\<close>

definition eq_one :: "json \<Rightarrow> bool" where
  "eq_one v = (num_of v = Inr 1)"

text \<open>\<^verbatim>\<open>GoveeDevice._update_state(self, state)\<close>. Every \<^verbatim>\<open>_update_state\<close> returns the exception it
  raised, if any, and the device as mutated up to that point.\<close>

definition GoveeDevice_update_state ::
  "'c device \<Rightarrow> (string \<times> json) list \<Rightarrow> error option \<times> 'c device" where
  "GoveeDevice_update_state d state =
     (case dict_getitem state ''connected'' of
        Inl e \<Rightarrow> (Some e, d)
      | Inr conn \<Rightarrow>
          if conn = JBool True \<or> conn = JStr ''true''
          then (None, snd (add_connection_status d {IOT_CONNECTED}))
          else (None, snd (remove_connection_status d {IOT_CONNECTED})))"

text \<open>\<^verbatim>\<open>ToggleableGoveeDevice._update_state\<close>.\<close>

definition ToggleableGoveeDevice_update_state ::
  "'c device \<Rightarrow> (string \<times> json) list \<Rightarrow> error option \<times> 'c device" where
  "ToggleableGoveeDevice_update_state d state =
     (case GoveeDevice_update_state d state of
        (Some e, d1) \<Rightarrow> (Some e, d1)
      | (None, d1) \<Rightarrow>
          (case dict_getitem state ''onOff'' of
             Inl e \<Rightarrow> (Some e, d1)
           | Inr v \<Rightarrow> (None, d1\<lparr>on := Some (eq_one v)\<rparr>)))"

text \<open>\<^verbatim>\<open>GoveeLight._update_state\<close>:
  \<^verbatim>\<open>self.__brightness = max(min(state['brightness'] / 255, 1.0), 0.0)\<close>.\<close>

definition GoveeLight_update_state ::
  "'c device \<Rightarrow> (string \<times> json) list \<Rightarrow> error option \<times> 'c device" where
  "GoveeLight_update_state d state =
     (case ToggleableGoveeDevice_update_state d state of
        (Some e, d1) \<Rightarrow> (Some e, d1)
      | (None, d1) \<Rightarrow>
          (case dict_getitem state ''brightness'' of
             Inl e \<Rightarrow> (Some e, d1)
           | Inr v \<Rightarrow>
               (case num_of v of
                  Inl e \<Rightarrow> (Some e, d1)
                | Inr n \<Rightarrow> (None, d1\<lparr>brightness := Some (max (min (n / 255) 1) 0)\<rparr>))))"

text \<open>\<^verbatim>\<open>GoveeRgbLight.__fix_color_temperature\<close>: a falsy value gives 0, a number is clamped to
  2000..9000, and comparing any other truthy value with a number raises.\<close>

definition fix_color_temperature :: "json \<Rightarrow> error + rat" where
  "fix_color_temperature temperature =
     (if truthy temperature
      then (case num_of temperature of
              Inl e \<Rightarrow> Inl e
            | Inr n \<Rightarrow> Inr (max (min n 9000) 2000))
      else Inr 0)"

text \<open>One component \<^verbatim>\<open>color[k] / 255.0\<close> of the colour triple.\<close>

definition color_component :: "json \<Rightarrow> string \<Rightarrow> error + rat" where
  "color_component c k =
     (case getitem c k of
        Inl e \<Rightarrow> Inl e
      | Inr v \<Rightarrow> (case num_of v of Inl e \<Rightarrow> Inl e | Inr n \<Rightarrow> Inr (n / 255)))"

text \<open>\<^verbatim>\<open>GoveeRgbLight._update_state\<close>. \<open>Color\<close> is the constructor \<^verbatim>\<open>colour.Color(rgb = ...)\<close> of
  the colour library, which may raise.\<close>

definition GoveeRgbLight_update_state ::
  "(rat \<Rightarrow> rat \<Rightarrow> rat \<Rightarrow> error + 'c) \<Rightarrow> 'c device \<Rightarrow> (string \<times> json) list
     \<Rightarrow> error option \<times> 'c device" where
  "GoveeRgbLight_update_state Color d state =
     (case GoveeLight_update_state d state of
        (Some e, d1) \<Rightarrow> (Some e, d1)
      | (None, d1) \<Rightarrow>
          (case (case map_of state ''colorTemInKelvin'' of
                   Some v \<Rightarrow> (case fix_color_temperature v of
                                Inl e \<Rightarrow> Inl e
                              | Inr t \<Rightarrow> Inr (d1\<lparr>color_temperature := Some t\<rparr>))
                 | None \<Rightarrow> Inr (d1\<lparr>color_temperature := None\<rparr>)) of
             Inl e \<Rightarrow> (Some e, d1)
           | Inr d2 \<Rightarrow>
               (case map_of state ''color'' of
                  Some c \<Rightarrow>
                    (case color_component c ''r'' of
                       Inl e \<Rightarrow> (Some e, d2)
                     | Inr r \<Rightarrow>
                    (case color_component c ''g'' of
                       Inl e \<Rightarrow> (Some e, d2)
                     | Inr g \<Rightarrow>
                    (case color_component c ''b'' of
                       Inl e \<Rightarrow> (Some e, d2)
                     | Inr b \<Rightarrow>
                    (case Color r g b of
                       Inl e \<Rightarrow> (Some e, d2)
                     | Inr col \<Rightarrow> (None, d2\<lparr>color := Some col\<rparr>)))))
                | None \<Rightarrow> (None, d2\<lparr>color := None\<rparr>))))"

text \<open>The method call \<^verbatim>\<open>device._update_state(state)\<close>, resolved by the class of the device.\<close>

definition update_state ::
  "(rat \<Rightarrow> rat \<Rightarrow> rat \<Rightarrow> error + 'c) \<Rightarrow> 'c device \<Rightarrow> (string \<times> json) list
     \<Rightarrow> error option \<times> 'c device" where
  "update_state Color d state =
     (case cls d of
        GoveeWhiteBulb \<Rightarrow> GoveeLight_update_state d state
      | GoveeBulb \<Rightarrow> GoveeRgbLight_update_state Color d state
      | GoveeLedStrip \<Rightarrow> GoveeRgbLight_update_state Color d state)"

section \<open>Commands (command.py)\<close>

text \<open>
  The subclasses of \<^verbatim>\<open>_AbstractCommand\<close>. \<open>OtherCommand\<close> stands for any further subclass: it
  holds what its \<^verbatim>\<open>get_iot_payload\<close> and \<^verbatim>\<open>get_bt_payload\<close> return.
\<close>

datatype command =
    StatusCommand
  | TurnCommand bool
  | ColorCommand int int int
  | ColorTemperatureCommand int int int int
  | BrightnessCommand int
  | OtherCommand "string \<times> json" "(int \<times> int list) option"

fun get_iot_payload :: "command \<Rightarrow> string \<times> json" where
  "get_iot_payload StatusCommand = (''turn'', JObj [])"
| "get_iot_payload (TurnCommand val) = (''turn'', JObj [(''val'', JBool val)])"
| "get_iot_payload (ColorCommand red green blue) =
     (''color'', JObj [(''red'', JNum (of_int red)), (''green'', JNum (of_int green)),
                       (''blue'', JNum (of_int blue))])"
| "get_iot_payload (ColorTemperatureCommand temperature red green blue) =
     (''colorTem'',
      JObj [(''color'', JObj [(''red'', JNum (of_int red)), (''green'', JNum (of_int green)),
                              (''blue'', JNum (of_int blue))]),
            (''colorTemInKelvin'', JNum (of_int temperature))])"
| "get_iot_payload (BrightnessCommand val) = (''brightness'', JObj [(''val'', JNum (of_int val))])"
| "get_iot_payload (OtherCommand iot bt) = iot"

fun get_bt_payload :: "command \<Rightarrow> (int \<times> int list) option" where
  "get_bt_payload StatusCommand = None"
| "get_bt_payload (TurnCommand val) = Some (0x01, [if val then 0x01 else 0x00])"
| "get_bt_payload (ColorCommand red green blue) =
     Some (0x05, [0x02, 0xff, 0xff, 0xff, 0x01, red, green, blue])"
| "get_bt_payload (ColorTemperatureCommand temperature red green blue) =
     Some (0x05, [0x02, 0xff, 0xff, 0xff, 0x01, red, green, blue])"
| "get_bt_payload (BrightnessCommand val) = Some (0x04, [val AND 0xFF])"
| "get_bt_payload (OtherCommand iot bt) = bt"

section \<open>The client (api.py)\<close>

text \<open>
  What the client does to the outside, in the order it does it: calls of the broker, radio
  and HTTP libraries, and the events raised to the application. The two \<open>Call\<close> entries
  record that \<^verbatim>\<open>__publish_iot_payload\<close> and \<^verbatim>\<open>__publish_bt_payload\<close> were entered. Devices are
  named by the reference of the device object.
\<close>

datatype action =
    Call_publish_iot_payload nat command
  | Call_publish_bt_payload nat command
  | MqttPublish string json
  | MqttDisconnect
  | MqttCreate
  | MqttConnect
  | MqttSubscribe string
  | BtStart
  | BtConnect string
  | BtCharWrite string "int list"
  | BtDisconnect string
  | HttpPost string
  | OnNewDevice nat
  | OnDeviceUpdate nat "json option"
  | OnError "nat option" string

text \<open>
  The state of a \<^verbatim>\<open>Govee\<close> object. Device objects live in \<open>heap\<close>; \<open>devices\<close> is the dict
  \<^verbatim>\<open>__devices\<close> in insertion order, from identifier to device object;
  \<open>bluetooth_connections\<close> holds the addresses that have a pooled connection;
  \<open>bt_running\<close> is \<^verbatim>\<open>__bluetooth_adapter._running\<close>: \<open>None\<close>, or an event that is set or
  not (the adapter itself is always present after \<^verbatim>\<open>__init__\<close>).
\<close>

record 'c govee =
  heap :: "nat \<Rightarrow> 'c device"
  devices :: "(string \<times> nat) list"
  bluetooth_connections :: "string set"
  bt_running :: "bool option"
  mqtt_connection :: bool
  login_token :: "string option"
  mqtt_cert_file :: "string option"
  mqtt_topic :: "string option"
  log :: "action list"

text \<open>The reply to the login request, \<^verbatim>\<open>res['status']\<close> and \<^verbatim>\<open>res['client'][...]\<close>, and one
  entry of \<^verbatim>\<open>res['devices']\<close> of the device list with its two embedded documents already
  parsed: whether \<^verbatim>\<open>deviceSettings\<close> has \<^verbatim>\<open>address\<close> and \<^verbatim>\<open>wifiName\<close>, its \<^verbatim>\<open>topic\<close> if any, and
  \<^verbatim>\<open>lastDeviceData['online']\<close> if present. Replies of another shape are outside the model.\<close>

record login_reply =
  reply_status :: int
  reply_token :: string
  reply_A :: string
  reply_topic :: string

record raw_device =
  raw_device :: string
  raw_sku :: string
  raw_deviceName :: string
  settings_address :: bool
  settings_topic :: "string option"
  settings_wifiName :: bool
  last_online :: "bool option"

text \<open>
  The outcomes of the calls into the outside world. Each is a function of the log at
  the moment of the call, so that two calls of the same kind may end differently. A field
  named \<open>_ok\<close> tells whether the call returns without raising; \<open>bt_start\<close> is the exception
  the adapter's \<^verbatim>\<open>start()\<close> raises or the \<^verbatim>\<open>_running\<close> it leaves behind; the two HTTP fields are the
  exception of \<^verbatim>\<open>__http_post\<close> or the parsed reply.
\<close>

record env =
  bt_start :: "action list \<Rightarrow> error + bool option"
  bt_connect_ok :: "action list \<Rightarrow> bool"
  bt_char_write_ok :: "action list \<Rightarrow> bool"
  mqtt_publish_ok :: "action list \<Rightarrow> bool"
  mqtt_connect_ok :: "action list \<Rightarrow> bool"
  mqtt_subscribe_ok :: "action list \<Rightarrow> bool"
  current_milli_time :: "action list \<Rightarrow> string"
  jwt_decode_ok :: "action list \<Rightarrow> string \<Rightarrow> bool"
  cert_files_ok :: "action list \<Rightarrow> string \<Rightarrow> bool"
  http_post_login :: "action list \<Rightarrow> error + login_reply"
  http_post_devices :: "action list \<Rightarrow> error + int \<times> raw_device list"

definition emit :: "action \<Rightarrow> 'c govee \<Rightarrow> 'c govee" where
  "emit a g = g\<lparr>log := log g @ [a]\<rparr>"

definition set_device :: "nat \<Rightarrow> 'c device \<Rightarrow> 'c govee \<Rightarrow> 'c govee" where
  "set_device r d g = g\<lparr>heap := (heap g)(r := d)\<rparr>"

text \<open>\<^verbatim>\<open>GoveeDevice._bt_address\<close>: \<^verbatim>\<open>self.__identifier[6:]\<close>.\<close>

definition bt_address :: "'c device \<Rightarrow> string" where
  "bt_address d = drop 6 (ident d)"

text \<open>The pattern \<^verbatim>\<open>if device._remove_connection_status(s): self.on_device_update(self, device, None)\<close>
  and its counterpart for \<^verbatim>\<open>_add_connection_status\<close>.\<close>

definition remove_status_notify :: "nat \<Rightarrow> ConnectionStatus \<Rightarrow> 'c govee \<Rightarrow> 'c govee" where
  "remove_status_notify r status g =
     (case remove_connection_status (heap g r) status of
        (changed, d') \<Rightarrow>
          let g1 = set_device r d' g
          in if changed then emit (OnDeviceUpdate r None) g1 else g1)"

definition add_status_notify :: "nat \<Rightarrow> ConnectionStatus \<Rightarrow> 'c govee \<Rightarrow> 'c govee" where
  "add_status_notify r status g =
     (case add_connection_status (heap g r) status of
        (changed, d') \<Rightarrow>
          let g1 = set_device r d' g
          in if changed then emit (OnDeviceUpdate r None) g1 else g1)"

text \<open>\<^verbatim>\<open>Govee.__init_bluetooth_if_required\<close>: starts the adapter unless its event is set. A
  start that raises, or that leaves no event behind (\<^verbatim>\<open>None.is_set()\<close> raises inside the
  \<^verbatim>\<open>try\<close>), is reported and gives \<^verbatim>\<open>False\<close>.\<close>

definition init_bluetooth_if_required :: "env \<Rightarrow> 'c govee \<Rightarrow> bool \<times> 'c govee" where
  "init_bluetooth_if_required ev g =
     (if bt_running g \<noteq> Some True
      then (let g1 = emit BtStart g
            in case bt_start ev (log g1) of
                 Inr (Some is_set) \<Rightarrow> (is_set, g1\<lparr>bt_running := Some is_set\<rparr>)
               | Inr None \<Rightarrow>
                   (False, emit (OnError None ''Unable to initialize Bluetooth adapter'')
                             (g1\<lparr>bt_running := None\<rparr>))
               | Inl e \<Rightarrow>
                   (False, emit (OnError None ''Unable to initialize Bluetooth adapter'') g1))
      else (True, g))"

text \<open>\<^verbatim>\<open>bytes(xs)\<close> of a list of integers raises \<^verbatim>\<open>ValueError\<close> unless each is in
  \<^verbatim>\<open>range(256)\<close>.\<close>

definition bytes :: "int list \<Rightarrow> error + int list" where
  "bytes xs = (if list_all (\<lambda>x. 0 \<le> x \<and> x < 256) xs then Inr xs else Inl ValueError)"

text \<open>The frame built in \<^verbatim>\<open>__publish_bt_payload\<close> from \<^verbatim>\<open>payload = (payload[0], payload[1])\<close>:
  marker and opcode, the data, zero padding to 19 bytes, and the checksum computed by
  the loop \<^verbatim>\<open>for byte in packet: checksum ^= byte\<close>.\<close>

definition bt_packet :: "int \<Rightarrow> int list \<Rightarrow> error + int list" where
  "bt_packet opcode data =
     (case bytes [0x33, opcode] of
        Inl e \<Rightarrow> Inl e
      | Inr header \<Rightarrow>
          (case bytes data of
             Inl e \<Rightarrow> Inl e
           | Inr body \<Rightarrow>
               let packet = header @ body;
                   packet = packet @ replicate (19 - length packet) 0x00;
                   checksum = fold (\<lambda>byte checksum. checksum XOR byte) packet 0
               in Inr (packet @ [checksum AND 0xFF])))"

text \<open>The retry loop of \<^verbatim>\<open>__publish_bt_payload\<close>: up to ten attempts to connect; on success
  the connection is pooled and \<^verbatim>\<open>BT_CONNECTED\<close> is added; after the tenth failure the error
  is reported. The result tells whether a connection was made.\<close>

function connect_loop :: "env \<Rightarrow> 'c govee \<Rightarrow> nat \<Rightarrow> nat \<Rightarrow> bool \<times> 'c govee" where
  "connect_loop ev g r retries =
     (if retries < 10
      then (let g1 = emit (BtConnect (bt_address (heap g r))) g
            in if bt_connect_ok ev (log g1)
               then (True,
                     add_status_notify r {BT_CONNECTED}
                       (g1\<lparr>bluetooth_connections :=
                             insert (bt_address (heap g r)) (bluetooth_connections g1)\<rparr>))
               else connect_loop ev g1 r (retries + 1))
      else (False, emit (OnError (Some r) ''Unable to connect to device via Bluetooth'') g))"
  by pat_completeness auto
termination
  by (relation "measure (\<lambda>(ev, g, r, retries). 10 - retries)") auto

text \<open>The three parts of \<^verbatim>\<open>Govee.__publish_bt_payload(self, device, command)\<close>: the pooled
  connection or the retry loop; the frame and its \<^verbatim>\<open>char_write\<close>, with the handling of a
  failed write; and the method itself, which returns the exception raised, if any.\<close>

definition get_bt_connection :: "env \<Rightarrow> 'c govee \<Rightarrow> nat \<Rightarrow> bool \<times> 'c govee" where
  "get_bt_connection ev g r =
     (if bt_address (heap g r) \<in> bluetooth_connections g then (True, g)
      else connect_loop ev g r 0)"

definition send_bt_packet :: "env \<Rightarrow> 'c govee \<Rightarrow> nat \<Rightarrow> int \<Rightarrow> int list \<Rightarrow> error option \<times> 'c govee" where
  "send_bt_packet ev g r opcode data =
     (case bt_packet opcode data of
        Inl e \<Rightarrow> (Some e, g)
      | Inr packet \<Rightarrow>
          let g1 = emit (BtCharWrite (bt_address (heap g r)) packet) g
          in if bt_char_write_ok ev (log g1)
             then (None, g1)
             else (None,
                   emit (BtDisconnect (bt_address (heap g r)))
                     (remove_status_notify r {BT_CONNECTED}
                        (emit (OnError (Some r) ''Unable to send data via Bluetooth'') g1))))"

definition publish_bt_payload :: "env \<Rightarrow> 'c govee \<Rightarrow> nat \<Rightarrow> command \<Rightarrow> error option \<times> 'c govee" where
  "publish_bt_payload ev g r cmd =
     (case init_bluetooth_if_required ev (emit (Call_publish_bt_payload r cmd) g) of
        (False, g1) \<Rightarrow> (None, g1)
      | (True, g1) \<Rightarrow>
          (case get_bt_payload cmd of
             None \<Rightarrow> (None, g1)
           | Some (opcode, data) \<Rightarrow>
               if length data > 17
               then (Some (GoveeException ''Bluetooth data payload too long''), g1)
               else
                 (case get_bt_connection ev g1 r of
                    (False, g2) \<Rightarrow> (None, g2)
                  | (True, g2) \<Rightarrow> send_bt_packet ev g2 r opcode data)))"

text \<open>\<^verbatim>\<open>Govee.__publish_iot_payload(self, device, command)\<close>: returns whether the message was
  published. Without a broker connection (\<^verbatim>\<open>__mqtt_connection\<close> is \<^verbatim>\<open>None\<close>) the call of
  \<^verbatim>\<open>publish\<close> raises inside the \<^verbatim>\<open>try\<close>.\<close>

definition iot_envelope :: "env \<Rightarrow> 'c govee \<Rightarrow> command \<Rightarrow> json" where
  "iot_envelope ev g cmd =
     (case get_iot_payload cmd of
        (c, data) \<Rightarrow>
          JObj [(''msg'',
            JObj [(''accountTopic'', (case mqtt_topic g of None \<Rightarrow> JNull | Some t \<Rightarrow> JStr t)),
                  (''cmd'', JStr c),
                  (''cmdVersion'', JNum 0),
                  (''data'', data),
                  (''transaction'', JStr (current_milli_time ev (log g))),
                  (''type'', JNum 1)])])"

definition publish_iot_payload :: "env \<Rightarrow> 'c govee \<Rightarrow> nat \<Rightarrow> command \<Rightarrow> bool \<times> 'c govee" where
  "publish_iot_payload ev g r cmd =
     (let g0 = emit (Call_publish_iot_payload r cmd) g;
          g1 = (if mqtt_connection g0
                then emit (MqttPublish (topic (heap g0 r)) (iot_envelope ev g0 cmd)) g0 else g0)
      in if mqtt_connection g0 \<and> mqtt_publish_ok ev (log g1)
         then (True, g1)
         else (False,
               remove_status_notify r {IOT_CONNECTED}
                 (emit (OnError (Some r) ''Unable to send data via MQTT'') g1)))"

text \<open>\<^verbatim>\<open>Govee._publish_command(self, device, command)\<close>.\<close>

definition publish_command :: "env \<Rightarrow> 'c govee \<Rightarrow> nat \<Rightarrow> command \<Rightarrow> error option \<times> 'c govee" where
  "publish_command ev g r cmd =
     (case (if iot_device (heap g r) \<and>
               (connection_status (heap g r) \<inter> {IOT_CONNECTED} = {IOT_CONNECTED}
                \<or> cmd = StatusCommand)
            then publish_iot_payload ev g r cmd
            else (False, g)) of
        (iot_sent, g1) \<Rightarrow>
          if \<not> iot_sent then publish_bt_payload ev g1 r cmd else (None, g1))"

text \<open>\<^verbatim>\<open>ToggleableGoveeDevice.__turn\<close>, the setter of \<^verbatim>\<open>on\<close>, \<^verbatim>\<open>toggle\<close> and \<^verbatim>\<open>request_status\<close>,
  called on the device object \<open>r\<close>.\<close>

definition turn :: "env \<Rightarrow> 'c govee \<Rightarrow> nat \<Rightarrow> bool \<Rightarrow> error option \<times> 'c govee" where
  "turn ev g r val =
     (if Some val \<noteq> on (heap g r) then publish_command ev g r (TurnCommand val) else (None, g))"


definition toggle :: "env \<Rightarrow> 'c govee \<Rightarrow> nat \<Rightarrow> error option \<times> 'c govee" where
  "toggle ev g r = turn ev g r (\<not> (on (heap g r) = Some True))"

definition request_status :: "env \<Rightarrow> 'c govee \<Rightarrow> nat \<Rightarrow> error option \<times> 'c govee" where
  "request_status ev g r = publish_command ev g r StatusCommand"

section \<open>Login, device list and inbound pushes (api.py)\<close>

text \<open>\<^verbatim>\<open>Govee.__token_is_valid\<close>.\<close>

definition token_is_valid :: "env \<Rightarrow> 'c govee \<Rightarrow> bool" where
  "token_is_valid ev g =
     (case login_token g of
        None \<Rightarrow> False
      | Some t \<Rightarrow> if t = [] \<or> length t < 10 then False else jwt_decode_ok ev (log g) t)"

text \<open>The loop \<^verbatim>\<open>for gdev in self.__devices.values()\<close> of \<^verbatim>\<open>__login_if_required\<close> that removes
  \<^verbatim>\<open>IOT_CONNECTED\<close> from every device.\<close>

definition clear_iot_flags :: "'c govee \<Rightarrow> 'c govee" where
  "clear_iot_flags g = fold (\<lambda>(i, r). remove_status_notify r {IOT_CONNECTED}) (devices g) g"

text \<open>The block \<^verbatim>\<open>if require_mqtt_reconnect:\<close> of \<^verbatim>\<open>__login_if_required\<close>; \<open>tpc\<close> is
  \<^verbatim>\<open>self.__mqtt_topic\<close>, assigned just before. An exception of the old connection's
  \<^verbatim>\<open>disconnect\<close> is swallowed; one of \<^verbatim>\<open>connect\<close> or \<^verbatim>\<open>subscribe\<close> propagates.\<close>

definition mqtt_reconnect :: "env \<Rightarrow> 'c govee \<Rightarrow> string \<Rightarrow> (error + bool) \<times> 'c govee" where
  "mqtt_reconnect ev g tpc =
     (let g1 = (if mqtt_connection g then emit MqttDisconnect g else g);
          g2 = clear_iot_flags g1;
          g3 = emit MqttCreate (g2\<lparr>mqtt_connection := True\<rparr>);
          g4 = emit MqttConnect g3
      in if \<not> mqtt_connect_ok ev (log g4) then (Inl (ExternalError ''connect''), g4)
         else (let g5 = emit (MqttSubscribe tpc) g4
               in if \<not> mqtt_subscribe_ok ev (log g5) then (Inl (ExternalError ''subscribe''), g5)
                  else (Inr True, g5)))"

text \<open>\<^verbatim>\<open>Govee.__login_if_required\<close>.\<close>

definition login_if_required :: "env \<Rightarrow> 'c govee \<Rightarrow> (error + bool) \<times> 'c govee" where
  "login_if_required ev g =
     (if \<not> token_is_valid ev g \<or> mqtt_cert_file g \<in> {None, Some []} \<or> mqtt_topic g \<in> {None, Some []}
      then (let g1 = emit (HttpPost ''/account/rest/account/v1/login'') g
            in case http_post_login ev (log g1) of
                 Inl e \<Rightarrow> (Inl e, g1)
               | Inr res \<Rightarrow>
                   if reply_status res \<noteq> 200
                   then (Inl (GoveeException ''Govee answered with login status''), g1)
                   else (let g2 = g1\<lparr>login_token := Some (reply_token res)\<rparr>
                         in if \<not> token_is_valid ev g2
                            then (Inl (GoveeException ''Govee sent us an invalid JWT''), g2)
                            else (let g3 = g2\<lparr>mqtt_cert_file := Some (reply_A res)\<rparr>
                                  in if reply_A res = [] \<or> \<not> cert_files_ok ev (log g3) (reply_A res)
                                     then (Inl (GoveeException ''Govee requires the certificate''), g3)
                                     else mqtt_reconnect ev
                                            (g3\<lparr>mqtt_topic := Some (reply_topic res)\<rparr>)
                                            (reply_topic res))))
      else (Inr True, g))"

text \<open>\<^verbatim>\<open>Govee.__get_device_factory\<close> followed by the factory's \<^verbatim>\<open>build\<close> (device\_factory.py):
  the class of the device built for a SKU, if any.\<close>

definition device_class_of_sku :: "string \<Rightarrow> device_class option" where
  "device_class_of_sku sk =
     (if length sk < 5 \<or> sk ! 0 \<noteq> CHR ''H'' then None
      else if take 2 (drop 1 sk) = ''60''
           then (if sk = ''H6085'' then Some GoveeWhiteBulb else Some GoveeBulb)
      else if take 2 (drop 1 sk) = ''61'' then Some GoveeLedStrip
      else None)"

text \<open>A reference no device object of the registry has.\<close>

definition fresh_ref :: "'c govee \<Rightarrow> nat" where
  "fresh_ref g = Suc (fold max (map snd (devices g)) 0)"

text \<open>One pass of the loop \<^verbatim>\<open>for raw_device in res['devices']\<close> of
  \<^verbatim>\<open>__http_update_device_list\<close>, and the loop.\<close>

definition upsert_device :: "raw_device \<Rightarrow> 'c govee \<Rightarrow> error option \<times> 'c govee" where
  "upsert_device rd g =
     (if raw_device rd = [] \<or> raw_sku rd = [] then (None, g)
      else if \<not> settings_address rd \<and> settings_topic rd = None then (None, g)
      else (case settings_topic rd of
              None \<Rightarrow> (Some KeyError, g)
            | Some tpc \<Rightarrow>
                (case map_of (devices g) (raw_device rd) of
                   Some r \<Rightarrow> (None, set_device r ((heap g r)\<lparr>name := raw_deviceName rd\<rparr>) g)
                 | None \<Rightarrow>
                     (case device_class_of_sku (raw_sku rd) of
                        None \<Rightarrow> (None, g)
                      | Some c \<Rightarrow>
                          let iot_connected =
                                (case last_online rd of
                                   Some online \<Rightarrow> if online then Iot_ONLINE else Iot_OFFLINE
                                 | None \<Rightarrow> if \<not> settings_wifiName rd then Iot_NO_IOT
                                           else Iot_UNKNOWN);
                              r = fresh_ref g;
                              d = GoveeDevice_init c (raw_device rd) tpc (raw_sku rd)
                                    (raw_deviceName rd) iot_connected
                          in (None,
                              emit (OnNewDevice r)
                                ((set_device r d g)\<lparr>devices := devices g @ [(raw_device rd, r)]\<rparr>))))))"

fun upsert_devices :: "raw_device list \<Rightarrow> 'c govee \<Rightarrow> error option \<times> 'c govee" where
  "upsert_devices [] g = (None, g)"
| "upsert_devices (rd # rds) g =
     (case upsert_device rd g of
        (Some e, g1) \<Rightarrow> (Some e, g1)
      | (None, g1) \<Rightarrow> upsert_devices rds g1)"

text \<open>\<^verbatim>\<open>Govee.__http_update_device_list\<close>.\<close>

definition http_update_device_list :: "env \<Rightarrow> 'c govee \<Rightarrow> error option \<times> 'c govee" where
  "http_update_device_list ev g =
     (case login_if_required ev g of
        (Inl e, g1) \<Rightarrow> (Some e, g1)
      | (Inr ok, g1) \<Rightarrow>
          let g2 = emit (HttpPost ''/device/rest/devices/v1/list'') g1
          in case http_post_devices ev (log g2) of
               Inl e \<Rightarrow> (Some e, g2)
             | Inr (status, raw_devices) \<Rightarrow>
                 if status \<noteq> 200
                 then (Some (GoveeException ''Govee answered with device list status''), g2)
                 else upsert_devices raw_devices g2)"

text \<open>\<^verbatim>\<open>device_identifer in self.__devices\<close>, giving the device object: a list or a dict cannot
  be hashed, and the keys of the registry are strings.\<close>

fun find_device :: "'c govee \<Rightarrow> json \<Rightarrow> error + nat option" where
  "find_device g (JStr i) = Inr (map_of (devices g) i)"
| "find_device g (JArr xs) = Inl TypeError"
| "find_device g (JObj kvs) = Inl TypeError"
| "find_device g v = Inr None"

text \<open>The end of \<^verbatim>\<open>__mqtt_topic_callback\<close>: the state is applied to the device and the update
  event is raised.\<close>

definition apply_push ::
  "(rat \<Rightarrow> rat \<Rightarrow> rat \<Rightarrow> error + 'c) \<Rightarrow> 'c govee \<Rightarrow> nat \<Rightarrow> (string \<times> json) list
     \<Rightarrow> (string \<times> json) list \<Rightarrow> error option \<times> 'c govee" where
  "apply_push Color g r state raw_json =
     (case update_state Color (heap g r) state of
        (Some e, d') \<Rightarrow> (Some e, set_device r d' g)
      | (None, d') \<Rightarrow> (None, emit (OnDeviceUpdate r (Some (JObj raw_json))) (set_device r d' g)))"

text \<open>\<^verbatim>\<open>Govee.__mqtt_topic_callback\<close>, from the parsed message \<^verbatim>\<open>raw_json\<close> (a JSON object) on.\<close>

definition mqtt_topic_callback ::
  "env \<Rightarrow> (rat \<Rightarrow> rat \<Rightarrow> rat \<Rightarrow> error + 'c) \<Rightarrow> 'c govee \<Rightarrow> (string \<times> json) list
     \<Rightarrow> error option \<times> 'c govee" where
  "mqtt_topic_callback ev Color g raw_json =
     (case map_of raw_json ''state'' of
        None \<Rightarrow> (None, g)
      | Some state \<Rightarrow>
          (case getitem state ''device'' of
             Inl e \<Rightarrow> (Some e, g)
           | Inr device_identifer \<Rightarrow>
               (case state of
                  JObj st \<Rightarrow>
                    (case find_device g device_identifer of
                       Inl e \<Rightarrow> (Some e, g)
                     | Inr (Some r) \<Rightarrow> apply_push Color g r st raw_json
                     | Inr None \<Rightarrow>
                         (case http_update_device_list ev g of
                            (Some e, g1) \<Rightarrow> (Some e, g1)
                          | (None, g1) \<Rightarrow>
                              (case find_device g1 device_identifer of
                                 Inl e \<Rightarrow> (Some e, g1)
                               | Inr None \<Rightarrow> (None, g1)
                               | Inr (Some r) \<Rightarrow> apply_push Color g1 r st raw_json)))
                | _ \<Rightarrow> (Some TypeError, g))))"

text \<open>\<open>precedes a b xs\<close>: \<open>a\<close> occurs in \<open>xs\<close> before the first \<open>b\<close>.\<close>

definition precedes :: "'a \<Rightarrow> 'a \<Rightarrow> 'a list \<Rightarrow> bool" where
  "precedes a b xs = (b \<in> set xs \<and> a \<in> set (takeWhile (\<lambda>x. x \<noteq> b) xs))"

text \<open>The log entries that record an attempt on a transport, and those that are a call of
  the radio stack's \<^verbatim>\<open>connect\<close> or \<^verbatim>\<open>char_write\<close>.\<close>

fun is_publish_call :: "action \<Rightarrow> bool" where
  "is_publish_call (Call_publish_iot_payload r cmd) = True"
| "is_publish_call (Call_publish_bt_payload r cmd) = True"
| "is_publish_call a = False"

fun is_radio_send :: "action \<Rightarrow> bool" where
  "is_radio_send (BtConnect a) = True"
| "is_radio_send (BtCharWrite a packet) = True"
| "is_radio_send a = False"

section \<open>A concrete client\<close>

text \<open>
  One LED strip, known to the client, broker-capable and offline; the adapter is running
  and a broker session exists. In \<open>example_env\<close> every broker publish fails and the radio
  stack works. \<open>example_Color\<close> keeps the triple a colour is made from.
\<close>

definition example_device :: "(rat \<times> rat \<times> rat) device" where
  "example_device =
     GoveeDevice_init GoveeLedStrip ''A2:B2:C3:D4:E5:F6:77:88'' ''GD/1'' ''H6163'' ''Living room''
       Iot_OFFLINE"

definition example_govee :: "(rat \<times> rat \<times> rat) govee" where
  "example_govee =
     \<lparr> heap = (\<lambda>r. example_device),
       devices = [(''A2:B2:C3:D4:E5:F6:77:88'', 0)],
       bluetooth_connections = {},
       bt_running = Some True,
       mqtt_connection = True,
       login_token = Some ''0123456789abcdef'',
       mqtt_cert_file = Some ''testiot.cert'',
       mqtt_topic = Some ''GA/1'',
       log = [] \<rparr>"

definition example_env :: env where
  "example_env =
     \<lparr> bt_start = (\<lambda>l. Inr (Some True)),
       bt_connect_ok = (\<lambda>l. True),
       bt_char_write_ok = (\<lambda>l. True),
       mqtt_publish_ok = (\<lambda>l. False),
       mqtt_connect_ok = (\<lambda>l. True),
       mqtt_subscribe_ok = (\<lambda>l. True),
       current_milli_time = (\<lambda>l. ''1234567890''),
       jwt_decode_ok = (\<lambda>l t. True),
       cert_files_ok = (\<lambda>l f. True),
       http_post_login = (\<lambda>l. Inr \<lparr> reply_status = 200, reply_token = ''0123456789abcdef'',
                                      reply_A = ''testiot.cert'', reply_topic = ''GA/1'' \<rparr>),
       http_post_devices = (\<lambda>l. Inr (200, [])) \<rparr>"

definition example_Color :: "rat \<Rightarrow> rat \<Rightarrow> rat \<Rightarrow> error + rat \<times> rat \<times> rat" where
  "example_Color red green blue = Inr (red, green, blue)"

text \<open>A device list that renames the known strip and holds one more strip; and the client
  with its strip connected to the broker and its login token gone.\<close>

definition example_env_list :: env where
  "example_env_list =
     example_env\<lparr>http_post_devices := (\<lambda>l. Inr (200,
       [\<lparr> raw_device = ''A2:B2:C3:D4:E5:F6:77:88'', raw_sku = ''H6163'',
           raw_deviceName = ''Bedroom'', settings_address = True, settings_topic = Some ''GD/1'',
           settings_wifiName = True, last_online = Some False \<rparr>,
        \<lparr> raw_device = ''AA:BB:CC:DD:EE:FF:11:22'', raw_sku = ''H6159'',
           raw_deviceName = ''Kitchen light'', settings_address = True, settings_topic = Some ''GD/2'',
           settings_wifiName = True, last_online = Some False \<rparr>]))\<rparr>"

definition example_govee_expired :: "(rat \<times> rat \<times> rat) govee" where
  "example_govee_expired =
     example_govee\<lparr>heap := (\<lambda>r. example_device\<lparr>connection_status := {IOT_CONNECTED}\<rparr>),
                   login_token := None\<rparr>"

section \<open>Properties of the connection status\<close>

lemma add_connection_status_nonempty:
  "status \<noteq> {} \<Longrightarrow> connection_status (snd (add_connection_status d status)) \<noteq> {}"
proof -
  assume ne: "status \<noteq> {}"
  show ?thesis
  proof (cases "status = {OFFLINE}")
    case True
    then show ?thesis by (simp add: add_connection_status_def Let_def)
  next
    case False
    with ne obtain f where "f \<in> status" "f \<noteq> OFFLINE" by blast
    then show ?thesis using False by (auto simp: add_connection_status_def Let_def)
  qed
qed

lemma remove_connection_status_nonempty:
  "connection_status (snd (remove_connection_status d status)) \<noteq> {}"
  by (simp add: remove_connection_status_def Let_def)

lemma apply_status_op_nonempty:
  "operand x \<noteq> {} \<Longrightarrow> connection_status (apply_status_op d x) \<noteq> {}"
  by (cases x) (simp_all add: add_connection_status_nonempty remove_connection_status_nonempty)

lemma apply_status_ops_nonempty:
  "connection_status d \<noteq> {} \<Longrightarrow> \<forall>x \<in> set ops. operand x \<noteq> {} \<Longrightarrow>
   connection_status (apply_status_ops d ops) \<noteq> {}"
  unfolding apply_status_ops_def
proof (induction ops arbitrary: d)
  case Nil
  then show ?case by simp
next
  case (Cons x ops)
  have "connection_status (apply_status_op d x) \<noteq> {}"
    using Cons.prems(2) by (simp add: apply_status_op_nonempty)
  then show ?case using Cons.IH Cons.prems(2) by simp
qed

text \<open>The hypothesis on the operand is needed: the empty combination
  (\<^verbatim>\<open>ConnectionStatus(0)\<close>, not a member of the enumeration and never passed by the client)
  differs from \<^verbatim>\<open>OFFLINE\<close>, so adding it to an offline device takes \<^verbatim>\<open>OFFLINE\<close> away and
  leaves nothing.\<close>

lemma add_connection_status_empty_operand:
  "connection_status
     (snd (add_connection_status (GoveeDevice_init c idn tpc sk nm Iot_OFFLINE) {})) = {}"
  by (simp add: add_connection_status_def GoveeDevice_init_def Let_def)

text \<open>
  Claim C1, at the inputs where the code departs from it. Adding \<^verbatim>\<open>IOT_CONNECTED\<close> to a
  device constructed online (status \<^verbatim>\<open>IOT_CONNECTED\<close>) leaves the status as it was, and
  removing \<^verbatim>\<open>OFFLINE\<close> from a device constructed offline (status \<^verbatim>\<open>OFFLINE\<close>) leaves the
  status as it was, but both calls return \<^verbatim>\<open>True\<close>.
\<close>

theorem C1_status_changed_without_change:
  "add_connection_status
     (GoveeDevice_init GoveeBulb ''AA:BB:CC:DD:EE:FF:11:22'' ''GD/1'' ''H6001'' ''Lamp'' Iot_ONLINE
        :: unit device) {IOT_CONNECTED}
   = (True, GoveeDevice_init GoveeBulb ''AA:BB:CC:DD:EE:FF:11:22'' ''GD/1'' ''H6001'' ''Lamp'' Iot_ONLINE)
   \<and> remove_connection_status
     (GoveeDevice_init GoveeBulb ''AA:BB:CC:DD:EE:FF:11:22'' ''GD/1'' ''H6001'' ''Lamp'' Iot_OFFLINE
        :: unit device) {OFFLINE}
   = (True, GoveeDevice_init GoveeBulb ''AA:BB:CC:DD:EE:FF:11:22'' ''GD/1'' ''H6001'' ''Lamp'' Iot_OFFLINE)"
  by (simp add: add_connection_status_def remove_connection_status_def GoveeDevice_init_def Let_def)

text \<open>
  Claim C4: the stored connection status is never the empty combination. A device is
  constructed with \<^verbatim>\<open>IOT_CONNECTED\<close> or with \<^verbatim>\<open>OFFLINE\<close>; every sequence of add and remove
  calls, each with a flag value that names at least one member, keeps the status
  non-empty; and a remove call that takes away every member that was set stores exactly
  \<^verbatim>\<open>OFFLINE\<close>.
\<close>

theorem C4_connection_status_never_empty:
  fixes d :: "'c device"
  assumes ops: "\<forall>x \<in> set ops. operand x \<noteq> {}"
  shows "connection_status (GoveeDevice_init c idn tpc sk nm iot :: 'c device)
           = (if iot = Iot_ONLINE then {IOT_CONNECTED} else {OFFLINE})
       \<and> connection_status
           (apply_status_ops (GoveeDevice_init c idn tpc sk nm iot :: 'c device) ops) \<noteq> {}
       \<and> (connection_status d \<noteq> {} \<longrightarrow> connection_status (apply_status_ops d ops) \<noteq> {})
       \<and> (connection_status d \<subseteq> status \<longrightarrow>
            connection_status (snd (remove_connection_status d status)) = {OFFLINE})"
proof -
  have init: "connection_status (GoveeDevice_init c idn tpc sk nm iot :: 'c device)
           = (if iot = Iot_ONLINE then {IOT_CONNECTED} else {OFFLINE})"
    by (simp add: GoveeDevice_init_def)
  have run: "connection_status (apply_status_ops e ops) \<noteq> {}"
    if "connection_status e \<noteq> {}" for e :: "'c device"
    using that ops by (rule apply_status_ops_nonempty)
  have fresh: "connection_status
           (apply_status_ops (GoveeDevice_init c idn tpc sk nm iot :: 'c device) ops) \<noteq> {}"
    by (rule run) (simp add: init)
  have last: "connection_status (snd (remove_connection_status d status)) = {OFFLINE}"
    if "connection_status d \<subseteq> status"
  proof -
    from that have "connection_status d \<inter> - status = {}" by blast
    then show ?thesis by (simp add: remove_connection_status_def Let_def)
  qed
  from init fresh run last show ?thesis by blast
qed

theorem C4_connection_status_never_empty_witness:
  "list_all (\<lambda>x. operand x \<noteq> {}) [Add {BT_CONNECTED}, Remove {IOT_CONNECTED}, Remove {BT_CONNECTED}]
   \<and> connection_status
        (apply_status_ops
           (GoveeDevice_init GoveeLedStrip ''AA:BB:CC:DD:EE:FF:11:22'' ''GD/1'' ''H6159'' ''Kitchen light''
              Iot_ONLINE :: unit device)
           [Add {BT_CONNECTED}, Remove {IOT_CONNECTED}, Remove {BT_CONNECTED}]) = {OFFLINE}
   \<and> connection_status
        (snd (remove_connection_status
           (GoveeDevice_init GoveeLedStrip ''AA:BB:CC:DD:EE:FF:11:22'' ''GD/1'' ''H6159'' ''Kitchen light''
              Iot_ONLINE :: unit device) {IOT_CONNECTED})) = {OFFLINE}"
proof -
  have h: "\<forall>x \<in> set [Add {BT_CONNECTED}, Remove {IOT_CONNECTED}, Remove {BT_CONNECTED}]. operand x \<noteq> {}"
    by simp
  have run: "connection_status
        (apply_status_ops
           (GoveeDevice_init GoveeLedStrip ''AA:BB:CC:DD:EE:FF:11:22'' ''GD/1'' ''H6159'' ''Kitchen light''
              Iot_ONLINE :: unit device)
           [Add {BT_CONNECTED}, Remove {IOT_CONNECTED}, Remove {BT_CONNECTED}]) = {OFFLINE}"
    by (simp add: apply_status_ops_def add_connection_status_def remove_connection_status_def
        GoveeDevice_init_def Let_def)
  note inst = C4_connection_status_never_empty [OF h,
      of GoveeLedStrip "''AA:BB:CC:DD:EE:FF:11:22''" "''GD/1''" "''H6159''" "''Kitchen light''" Iot_ONLINE
         "GoveeDevice_init GoveeLedStrip ''AA:BB:CC:DD:EE:FF:11:22'' ''GD/1'' ''H6159'' ''Kitchen light''
              Iot_ONLINE :: unit device" "{IOT_CONNECTED}"]
  have "connection_status
        (snd (remove_connection_status
           (GoveeDevice_init GoveeLedStrip ''AA:BB:CC:DD:EE:FF:11:22'' ''GD/1'' ''H6159'' ''Kitchen light''
              Iot_ONLINE :: unit device) {IOT_CONNECTED})) = {OFFLINE}"
    using inst by (simp add: GoveeDevice_init_def)
  with h run show ?thesis by (simp add: list_all_iff)
qed

section \<open>Properties of inbound state pushes\<close>












section \<open>Properties of the radio frame\<close>

lemma byte_take_bit: "0 \<le> x \<Longrightarrow> x < 256 \<Longrightarrow> take_bit 8 x = (x::int)"
  by (simp add: take_bit_int_eq_self)

lemma fold_xor_take_bit:
  "take_bit 8 c = (c::int) \<Longrightarrow> list_all (\<lambda>x. 0 \<le> x \<and> x < 256) xs \<Longrightarrow>
   take_bit 8 (fold (\<lambda>byte checksum. checksum XOR byte) xs c)
     = fold (\<lambda>byte checksum. checksum XOR byte) xs c"
proof (induction xs arbitrary: c)
  case Nil
  then show ?case by simp
next
  case (Cons x xs)
  have "take_bit 8 (c XOR x) = c XOR x"
    using Cons.prems by (simp add: take_bit_xor byte_take_bit)
  then show ?case using Cons.IH [of "c XOR x"] Cons.prems(2) by simp
qed

lemma checksum_and_255:
  assumes "list_all (\<lambda>x. 0 \<le> x \<and> x < 256) xs"
  shows "fold (\<lambda>byte checksum. checksum XOR byte) xs 0 AND 0xFF
       = fold (\<lambda>byte checksum. checksum XOR byte) xs (0::int)"
proof -
  have "take_bit 8 (fold (\<lambda>byte checksum. checksum XOR byte) xs (0::int))
       = fold (\<lambda>byte checksum. checksum XOR byte) xs 0"
    using assms by (intro fold_xor_take_bit) simp_all
  moreover have "(255::int) = mask 8" by (simp add: mask_eq_exp_minus_1)
  ultimately show ?thesis by (simp add: take_bit_eq_mask)
qed

lemma bt_packet_eq:
  assumes "0 \<le> opcode" "opcode < 256" "list_all (\<lambda>b. 0 \<le> b \<and> b < 256) data"
  shows "bt_packet opcode data =
     Inr (([0x33, opcode] @ data @ replicate (17 - length data) 0)
          @ [fold (\<lambda>byte checksum. checksum XOR byte)
               ([0x33, opcode] @ data @ replicate (17 - length data) 0) 0])"
proof -
  have "list_all (\<lambda>b. 0 \<le> b \<and> b < 256) ([0x33, opcode] @ data @ replicate (17 - length data) 0)"
    using assms by (auto simp: list_all_iff)
  from checksum_and_255 [OF this] show ?thesis
    using assms by (simp add: bt_packet_def bytes_def Let_def)
qed

text \<open>
  Claim C5: for an opcode byte and at most 17 payload bytes, the frame that
  \<^verbatim>\<open>__publish_bt_payload\<close> builds is 20 bytes long: byte 0 is \<^verbatim>\<open>0x33\<close>, byte 1 the opcode, the
  payload follows from byte 2, zeros fill up to byte 18, and byte 19 is the XOR of bytes 0
  to 18. The frame is a function of opcode and payload alone.
\<close>

theorem C5_radio_frame:
  assumes "0 \<le> opcode" "opcode < 256" "list_all (\<lambda>b. 0 \<le> b \<and> b < 256) data"
    and "length data \<le> 17"
  shows "\<exists>frame. bt_packet opcode data = Inr frame
       \<and> length frame = 20
       \<and> frame ! 0 = 0x33
       \<and> frame ! 1 = opcode
       \<and> take (length data) (drop 2 frame) = data
       \<and> (\<forall>i. 2 + length data \<le> i \<and> i < 19 \<longrightarrow> frame ! i = 0)
       \<and> frame ! 19 = foldr (XOR) (take 19 frame) 0"
proof -
  let ?body = "[0x33, opcode] @ data @ replicate (17 - length data) 0"
  let ?sum = "fold (\<lambda>byte checksum. checksum XOR byte) ?body (0::int)"
  let ?frame = "?body @ [?sum]"
  have eq: "bt_packet opcode data = Inr ?frame"
    using assms(1-3) by (rule bt_packet_eq)
  have len: "length ?body = 19" using assms(4) by simp
  have l20: "length ?frame = 20" using len by simp
  have b0: "?frame ! 0 = 0x33" by simp
  have b1: "?frame ! 1 = opcode" by simp
  have pay: "take (length data) (drop 2 ?frame) = data" by simp
  have pad: "?frame ! i = 0" if "2 + length data \<le> i" "i < 19" for i
  proof -
    define k where "k = i - (2 + length data)"
    have i: "i = length ([0x33, opcode] @ data) + k" and k: "k < 17 - length data"
      using that by (simp_all add: k_def)
    have "?frame = ([0x33, opcode] @ data) @ (replicate (17 - length data) 0 @ [?sum])"
      by simp
    then have "?frame ! i = (replicate (17 - length data) 0 @ [?sum]) ! k"
      by (simp only: i nth_append_length_plus)
    also have "\<dots> = 0" using k by (simp add: nth_append)
    finally show ?thesis .
  qed
  have t19: "take 19 ?frame = ?body" using len by simp
  have comm: "fold (\<lambda>byte checksum. checksum XOR byte) xs c = foldr (XOR) xs (c::int)" for xs c
  proof -
    have "fold (\<lambda>byte checksum. checksum XOR byte) xs c = fold (XOR) xs c"
      by (rule arg_cong [where f = "\<lambda>f. fold f xs c"]) (auto simp: xor.commute)
    also have "\<dots> = foldr (XOR) xs c"
    proof -
      have "foldr (XOR) xs = fold (XOR) xs"
        by (rule foldr_fold) (auto simp: fun_eq_iff xor.left_commute)
      then show ?thesis by simp
    qed
    finally show ?thesis .
  qed
  have last: "?frame ! 19 = ?sum" using len by (simp only: nth_append) simp
  have sum: "?sum = foldr (XOR) ?body 0" by (rule comm)
  have body: "foldr (XOR) (take 19 ?frame) 0 = foldr (XOR) ?body 0"
    by (rule arg_cong [where f = "\<lambda>xs. foldr (XOR) xs 0", OF t19])
  have chk: "?frame ! 19 = foldr (XOR) (take 19 ?frame) 0"
    by (rule trans [OF trans [OF last sum] body [symmetric]])
  from eq l20 b0 b1 pay pad chk show ?thesis by blast
qed


theorem C5_radio_frame_witness:
  "bt_packet 0x05 [0x02, 0xff, 0xff, 0xff, 0x01, 255, 0, 255]
     = Inr [0x33, 0x05, 0x02, 0xff, 0xff, 0xff, 0x01, 255, 0, 255, 0, 0, 0, 0, 0, 0, 0, 0, 0, 0xca]
   \<and> (\<exists>frame. bt_packet 0x05 [0x02, 0xff, 0xff, 0xff, 0x01, 255, 0, 255] = Inr frame
       \<and> length frame = 20 \<and> frame ! 0 = 0x33 \<and> frame ! 1 = 0x05
       \<and> frame ! 19 = foldr (XOR) (take 19 frame) 0)"
proof -
  have "bt_packet 0x05 [0x02, 0xff, 0xff, 0xff, 0x01, 255, 0, 255]
     = Inr [0x33, 0x05, 0x02, 0xff, 0xff, 0xff, 0x01, 255, 0, 255, 0, 0, 0, 0, 0, 0, 0, 0, 0, 0xca]"
    by (simp add: bt_packet_def bytes_def Let_def numeral_eq_Suc)
  moreover have "\<exists>frame. bt_packet 0x05 [0x02, 0xff, 0xff, 0xff, 0x01, 255, 0, 255] = Inr frame
       \<and> length frame = 20 \<and> frame ! 0 = 0x33 \<and> frame ! 1 = 0x05
       \<and> frame ! 19 = foldr (XOR) (take 19 frame) 0"
    using C5_radio_frame [of "0x05" "[0x02, 0xff, 0xff, 0xff, 0x01, 255, 0, 255]"]
    by auto
  ultimately show ?thesis by blast
qed

section \<open>What the publishing functions append to the log\<close>

lemma log_emit [simp]: "log (emit a g) = log g @ [a]"
  by (simp add: emit_def)

lemma log_set_device [simp]: "log (set_device r d g) = log g"
  by (simp add: set_device_def)

lemma remove_status_notify_log:
  "\<exists>ys. log (remove_status_notify r s g) = log g @ ys
        \<and> list_all (\<lambda>a. \<not> is_publish_call a \<and> \<not> is_radio_send a) ys"
  by (auto simp: remove_status_notify_def Let_def split: prod.splits)

lemma add_status_notify_log:
  "\<exists>ys. log (add_status_notify r s g) = log g @ ys
        \<and> list_all (\<lambda>a. \<not> is_publish_call a \<and> \<not> is_radio_send a) ys"
  by (auto simp: add_status_notify_def Let_def split: prod.splits)

lemma init_bluetooth_if_required_log:
  "\<exists>ys. log (snd (init_bluetooth_if_required ev g)) = log g @ ys
        \<and> list_all (\<lambda>a. \<not> is_publish_call a \<and> \<not> is_radio_send a) ys"
  by (auto simp: init_bluetooth_if_required_def Let_def split: sum.splits option.splits)

lemma connect_loop_log:
  "\<exists>ys. log (snd (connect_loop ev g r retries)) = log g @ ys
        \<and> list_all (\<lambda>a. \<not> is_publish_call a) ys"
proof (induction ev g r retries rule: connect_loop.induct)
  case (1 ev g r retries)
  show ?case
  proof (cases "retries < 10")
    case False
    then show ?thesis by (subst connect_loop.simps) simp
  next
    case True
    let ?g1 = "emit (BtConnect (bt_address (heap g r))) g"
    show ?thesis
    proof (cases "bt_connect_ok ev (log ?g1)")
      case ok: True
      obtain ys where "log (add_status_notify r {BT_CONNECTED}
          (?g1\<lparr>bluetooth_connections := insert (bt_address (heap g r)) (bluetooth_connections ?g1)\<rparr>))
          = log (?g1\<lparr>bluetooth_connections := insert (bt_address (heap g r)) (bluetooth_connections ?g1)\<rparr>) @ ys"
        and "list_all (\<lambda>a. \<not> is_publish_call a \<and> \<not> is_radio_send a) ys"
        using add_status_notify_log by blast
      then show ?thesis using True ok
        by (subst connect_loop.simps) (auto simp: Let_def list_all_iff)
    next
      case no: False
      obtain ys where "log (snd (connect_loop ev ?g1 r (retries + 1))) = log ?g1 @ ys"
        and "list_all (\<lambda>a. \<not> is_publish_call a) ys"
        using "1.IH" [OF True refl no] by blast
      then show ?thesis using True no
        by (subst connect_loop.simps) (auto simp: Let_def)
    qed
  qed
qed


lemma get_bt_connection_log:
  "\<exists>ys. log (snd (get_bt_connection ev g r)) = log g @ ys
        \<and> list_all (\<lambda>a. \<not> is_publish_call a) ys"
  using connect_loop_log [of ev g r 0] by (simp add: get_bt_connection_def)

lemma send_bt_packet_log:
  "\<exists>ys. log (snd (send_bt_packet ev g r opcode data)) = log g @ ys
        \<and> list_all (\<lambda>a. \<not> is_publish_call a) ys"
proof (cases "bt_packet opcode data")
  case (Inl e)
  then show ?thesis by (simp add: send_bt_packet_def)
next
  case (Inr packet)
  let ?g1 = "emit (BtCharWrite (bt_address (heap g r)) packet) g"
  let ?g2 = "emit (OnError (Some r) ''Unable to send data via Bluetooth'') ?g1"
  obtain ys where "log (remove_status_notify r {BT_CONNECTED} ?g2) = log ?g2 @ ys"
    and "list_all (\<lambda>a. \<not> is_publish_call a \<and> \<not> is_radio_send a) ys"
    using remove_status_notify_log by blast
  then show ?thesis using Inr
    by (auto simp: send_bt_packet_def Let_def list_all_iff)
qed

lemma publish_bt_payload_log:
  "\<exists>ys. log (snd (publish_bt_payload ev g r cmd)) = log g @ Call_publish_bt_payload r cmd # ys
        \<and> list_all (\<lambda>a. \<not> is_publish_call a) ys"
proof -
  let ?g0 = "emit (Call_publish_bt_payload r cmd) g"
  obtain b g1 where init: "init_bluetooth_if_required ev ?g0 = (b, g1)"
    by (cases "init_bluetooth_if_required ev ?g0")
  obtain ys1 where l1: "log g1 = log ?g0 @ ys1"
    and c1: "list_all (\<lambda>a. \<not> is_publish_call a \<and> \<not> is_radio_send a) ys1"
    using init_bluetooth_if_required_log [of ev ?g0] init by auto
  have base: "\<exists>ys. log g1 = log g @ Call_publish_bt_payload r cmd # ys
        \<and> list_all (\<lambda>a. \<not> is_publish_call a) ys"
    using l1 c1 by (auto simp: list_all_iff)
  show ?thesis
  proof (cases "b \<and> (\<exists>opcode data. get_bt_payload cmd = Some (opcode, data) \<and> \<not> length data > 17)")
    case False
    then have "snd (publish_bt_payload ev g r cmd) = g1"
      by (auto simp: publish_bt_payload_def init split: option.splits bool.splits)
    then show ?thesis using base by simp
  next
    case True
    then obtain opcode data where b: b and pl: "get_bt_payload cmd = Some (opcode, data)"
      and len: "\<not> length data > 17" by blast
    obtain c g2 where conn: "get_bt_connection ev g1 r = (c, g2)"
      by (cases "get_bt_connection ev g1 r")
    obtain ys2 where l2: "log g2 = log g1 @ ys2" and c2: "list_all (\<lambda>a. \<not> is_publish_call a) ys2"
      using get_bt_connection_log [of ev g1 r] conn by auto
    obtain ys3 where l3: "log (snd (send_bt_packet ev g2 r opcode data)) = log g2 @ ys3"
      and c3: "list_all (\<lambda>a. \<not> is_publish_call a) ys3"
      using send_bt_packet_log by blast
    have "snd (publish_bt_payload ev g r cmd)
        = (if c then snd (send_bt_packet ev g2 r opcode data) else g2)"
      using b pl len by (simp add: publish_bt_payload_def init conn)
    then show ?thesis using l1 c1 l2 c2 l3 c3
      by (cases c) (auto simp: list_all_iff)
  qed
qed

lemma publish_iot_payload_log:
  "\<exists>ys. log (snd (publish_iot_payload ev g r cmd)) = log g @ Call_publish_iot_payload r cmd # ys
        \<and> list_all (\<lambda>a. \<not> is_publish_call a) ys"
proof -
  let ?g0 = "emit (Call_publish_iot_payload r cmd) g"
  let ?g1 = "if mqtt_connection ?g0
             then emit (MqttPublish (topic (heap ?g0 r)) (iot_envelope ev ?g0 cmd)) ?g0 else ?g0"
  let ?g2 = "emit (OnError (Some r) ''Unable to send data via MQTT'') ?g1"
  obtain ys where "log (remove_status_notify r {IOT_CONNECTED} ?g2) = log ?g2 @ ys"
    and "list_all (\<lambda>a. \<not> is_publish_call a \<and> \<not> is_radio_send a) ys"
    using remove_status_notify_log by blast
  then show ?thesis
    by (auto simp: publish_iot_payload_def Let_def list_all_iff)
qed


lemma not_publish_call_notin:
  "list_all (\<lambda>a. \<not> is_publish_call a) ys \<Longrightarrow>
   Call_publish_iot_payload r cmd \<notin> set ys \<and> Call_publish_bt_payload r cmd \<notin> set ys"
  by (auto simp: list_all_iff)

lemma publish_command_log:
  "\<exists>xs. log (snd (publish_command ev g r cmd)) = log g @ xs
     \<and> (Call_publish_iot_payload r cmd \<in> set xs) =
         (iot_device (heap g r) \<and>
          (IOT_CONNECTED \<in> connection_status (heap g r) \<or> cmd = StatusCommand))
     \<and> (Call_publish_bt_payload r cmd \<in> set xs) =
         (\<not> (Call_publish_iot_payload r cmd \<in> set xs \<and> fst (publish_iot_payload ev g r cmd)))
     \<and> (Call_publish_iot_payload r cmd \<in> set xs \<longrightarrow> hd xs = Call_publish_iot_payload r cmd)"
proof -
  let ?iot = "Call_publish_iot_payload r cmd" and ?bt = "Call_publish_bt_payload r cmd"
  let ?cond = "iot_device (heap g r) \<and>
          (IOT_CONNECTED \<in> connection_status (heap g r) \<or> cmd = StatusCommand)"
  have test: "(connection_status (heap g r) \<inter> {IOT_CONNECTED} = {IOT_CONNECTED})
      = (IOT_CONNECTED \<in> connection_status (heap g r))"
    by auto
  show ?thesis
  proof (cases ?cond)
    case False
    then have eq: "publish_command ev g r cmd = publish_bt_payload ev g r cmd"
      by (auto simp: publish_command_def test)
    obtain zs where "log (snd (publish_bt_payload ev g r cmd)) = log g @ ?bt # zs"
      and "list_all (\<lambda>a. \<not> is_publish_call a) zs"
      using publish_bt_payload_log by blast
    then have "log (snd (publish_command ev g r cmd)) = log g @ (?bt # zs)"
      and "?iot \<notin> set (?bt # zs)" and "?bt \<in> set (?bt # zs)"
      using not_publish_call_notin [of zs r cmd] by (simp_all add: eq)
    then show ?thesis using False by blast
  next
    case True
    obtain sent g1 where iot: "publish_iot_payload ev g r cmd = (sent, g1)"
      by (cases "publish_iot_payload ev g r cmd")
    obtain ys where l1: "log g1 = log g @ ?iot # ys" and c1: "list_all (\<lambda>a. \<not> is_publish_call a) ys"
      using publish_iot_payload_log [of ev g r cmd] iot by auto
    note n1 = not_publish_call_notin [OF c1, of r cmd]
    show ?thesis
    proof (cases sent)
      case sent: True
      have "publish_command ev g r cmd = (None, g1)"
        using True sent by (simp add: publish_command_def test iot)
      then have "log (snd (publish_command ev g r cmd)) = log g @ (?iot # ys)"
        and "?iot \<in> set (?iot # ys)" and "?bt \<notin> set (?iot # ys)" and "hd (?iot # ys) = ?iot"
        using l1 n1 by simp_all
      then show ?thesis using True sent iot by (intro exI [of _ "?iot # ys"]) simp
    next
      case unsent: False
      have eq: "publish_command ev g r cmd = publish_bt_payload ev g1 r cmd"
        using True unsent by (simp add: publish_command_def test iot)
      obtain zs where "log (snd (publish_bt_payload ev g1 r cmd)) = log g1 @ ?bt # zs"
        using publish_bt_payload_log by blast
      then have "log (snd (publish_command ev g r cmd)) = log g @ (?iot # ys @ ?bt # zs)"
        and "?iot \<in> set (?iot # ys @ ?bt # zs)" and "?bt \<in> set (?iot # ys @ ?bt # zs)"
        and "hd (?iot # ys @ ?bt # zs) = ?iot"
        using l1 by (simp_all add: eq)
      then show ?thesis using True unsent iot by (intro exI [of _ "?iot # ys @ ?bt # zs"]) simp
    qed
  qed
qed

text \<open>
  Claim C3: in every dispatch, \<^verbatim>\<open>__publish_iot_payload\<close> is entered if and only if the device
  is broker-capable and either has \<^verbatim>\<open>IOT_CONNECTED\<close> set or the command is a status request
  (so a status request goes to the broker of a capable device also when the flag is
  clear); \<^verbatim>\<open>__publish_bt_payload\<close> is entered exactly when the broker attempt was not made or
  returned \<^verbatim>\<open>False\<close>; and a broker attempt comes first.
\<close>

theorem C3_transport_selection:
  "\<exists>xs. log (snd (publish_command ev g r cmd)) = log g @ xs
     \<and> (Call_publish_iot_payload r cmd \<in> set xs) =
         (iot_device (heap g r) \<and>
          (IOT_CONNECTED \<in> connection_status (heap g r) \<or> cmd = StatusCommand))
     \<and> (Call_publish_bt_payload r cmd \<in> set xs) =
         (\<not> (Call_publish_iot_payload r cmd \<in> set xs \<and> fst (publish_iot_payload ev g r cmd)))
     \<and> (Call_publish_iot_payload r cmd \<in> set xs \<longrightarrow> hd xs = Call_publish_iot_payload r cmd)"
  by (rule publish_command_log)

theorem C3_transport_selection_witness:
  "\<exists>xs. log (snd (publish_command example_env example_govee 0 StatusCommand)) = log example_govee @ xs
     \<and> Call_publish_iot_payload 0 StatusCommand \<in> set xs
     \<and> Call_publish_bt_payload 0 StatusCommand \<in> set xs
     \<and> hd xs = Call_publish_iot_payload 0 StatusCommand"
proof -
  have "\<not> fst (publish_iot_payload example_env example_govee 0 StatusCommand)"
    by (simp add: publish_iot_payload_def example_env_def example_govee_def Let_def emit_def)
  moreover have "iot_device (heap example_govee 0)"
    by (simp add: example_govee_def example_device_def GoveeDevice_init_def)
  ultimately show ?thesis
    using C3_transport_selection [of example_env example_govee 0 StatusCommand] by auto
qed

section \<open>Radio dispatch without a frame\<close>





section \<open>Power commands\<close>




text \<open>
  Claim C10: on a device whose cached power state is unknown (\<^verbatim>\<open>None\<close>), \<^verbatim>\<open>toggle()\<close> dispatches
  \<^verbatim>\<open>TurnCommand(True)\<close>: the call is the dispatch of that command, a transport is attempted
  with it, and its payloads are \<^verbatim>\<open>('turn', {'val': True})\<close> for the broker and opcode
  \<^verbatim>\<open>0x01\<close> with data \<^verbatim>\<open>[0x01]\<close> for the radio.
\<close>

theorem C10_toggle_unknown_turns_on:
  assumes "on (heap g r) = None"
  shows "toggle ev g r = publish_command ev g r (TurnCommand True)
       \<and> (\<exists>xs. log (snd (toggle ev g r)) = log g @ xs
            \<and> (Call_publish_iot_payload r (TurnCommand True) \<in> set xs
               \<or> Call_publish_bt_payload r (TurnCommand True) \<in> set xs))
       \<and> get_iot_payload (TurnCommand True) = (''turn'', JObj [(''val'', JBool True)])
       \<and> get_bt_payload (TurnCommand True) = Some (0x01, [0x01])"
proof -
  have eq: "toggle ev g r = publish_command ev g r (TurnCommand True)"
    using assms by (simp add: toggle_def turn_def)
  obtain xs where "log (snd (publish_command ev g r (TurnCommand True))) = log g @ xs"
    and "(Call_publish_bt_payload r (TurnCommand True) \<in> set xs) =
         (\<not> (Call_publish_iot_payload r (TurnCommand True) \<in> set xs
             \<and> fst (publish_iot_payload ev g r (TurnCommand True))))"
    using publish_command_log [of ev g r "TurnCommand True"] by blast
  then have "\<exists>xs. log (snd (toggle ev g r)) = log g @ xs
            \<and> (Call_publish_iot_payload r (TurnCommand True) \<in> set xs
               \<or> Call_publish_bt_payload r (TurnCommand True) \<in> set xs)"
    unfolding eq by blast
  then show ?thesis using eq by simp
qed

theorem C10_toggle_unknown_turns_on_witness:
  "on (heap example_govee 0) = None
   \<and> toggle example_env example_govee 0 = publish_command example_env example_govee 0 (TurnCommand True)
   \<and> log (snd (toggle example_env example_govee 0))
       = [Call_publish_bt_payload 0 (TurnCommand True), BtConnect ''C3:D4:E5:F6:77:88'',
          OnDeviceUpdate 0 None,
          BtCharWrite ''C3:D4:E5:F6:77:88'' [0x33, 0x01, 0x01, 0, 0, 0, 0, 0, 0, 0, 0, 0, 0, 0, 0, 0, 0, 0, 0, 0x33]]"
proof -
  have unknown: "on (heap example_govee 0) = None"
    by (simp add: example_govee_def example_device_def GoveeDevice_init_def)
  have eq: "toggle example_env example_govee 0
      = publish_command example_env example_govee 0 (TurnCommand True)"
    using C10_toggle_unknown_turns_on [OF unknown, of example_env] by simp
  have "log (snd (publish_command example_env example_govee 0 (TurnCommand True)))
       = [Call_publish_bt_payload 0 (TurnCommand True), BtConnect ''C3:D4:E5:F6:77:88'',
          OnDeviceUpdate 0 None,
          BtCharWrite ''C3:D4:E5:F6:77:88'' [0x33, 0x01, 0x01, 0, 0, 0, 0, 0, 0, 0, 0, 0, 0, 0, 0, 0, 0, 0, 0, 0x33]]"
    by (simp add: publish_command_def publish_bt_payload_def init_bluetooth_if_required_def
        get_bt_connection_def send_bt_packet_def bt_packet_def bytes_def bt_address_def
        add_status_notify_def add_connection_status_def set_device_def emit_def Let_def
        example_govee_def example_env_def example_device_def GoveeDevice_init_def
        connect_loop.simps numeral_eq_Suc)
  with unknown eq show ?thesis by simp
qed

section \<open>Inbound pushes for unknown devices\<close>

text \<open>A push whose state has no \<^verbatim>\<open>device\<close> entry is not dropped: \<^verbatim>\<open>state['device']\<close> raises
  \<^verbatim>\<open>KeyError\<close> out of the callback, before anything is changed.\<close>

lemma mqtt_topic_callback_without_device:
  "map_of raw_json ''state'' = Some (JObj st) \<Longrightarrow> map_of st ''device'' = None \<Longrightarrow>
   mqtt_topic_callback ev Color g raw_json = (Some KeyError, g)"
  by (simp add: mqtt_topic_callback_def dict_getitem_def)

text \<open>
  Claim C7, as stated, fails: when the device of a push is unknown, the device list is
  fetched, and that refresh renames known devices and raises an event for every new device
  it finds, although the push is then dropped.
\<close>

theorem C7_refresh_mutates_and_notifies:
  "fst (mqtt_topic_callback example_env_list example_Color example_govee
     [(''proType'', JNum 0),
      (''state'', JObj [(''onOff'', JNum 1), (''brightness'', JNum 159), (''connected'', JStr ''true''),
                        (''sku'', JStr ''H6163''), (''device'', JStr ''11:22:33:44:55:66:77:88'')])])
     = None
   \<and> log (snd (mqtt_topic_callback example_env_list example_Color example_govee
     [(''proType'', JNum 0),
      (''state'', JObj [(''onOff'', JNum 1), (''brightness'', JNum 159), (''connected'', JStr ''true''),
                        (''sku'', JStr ''H6163''), (''device'', JStr ''11:22:33:44:55:66:77:88'')])]))
     = [HttpPost ''/device/rest/devices/v1/list'', OnNewDevice 1]
   \<and> name (heap example_govee 0) = ''Living room''
   \<and> name (heap (snd (mqtt_topic_callback example_env_list example_Color example_govee
     [(''proType'', JNum 0),
      (''state'', JObj [(''onOff'', JNum 1), (''brightness'', JNum 159), (''connected'', JStr ''true''),
                        (''sku'', JStr ''H6163''), (''device'', JStr ''11:22:33:44:55:66:77:88'')])])) 0)
     = ''Bedroom''"
  by (simp add: mqtt_topic_callback_def dict_getitem_def http_update_device_list_def
      login_if_required_def token_is_valid_def upsert_device_def device_class_of_sku_def
      fresh_ref_def set_device_def emit_def Let_def GoveeDevice_init_def
      example_env_list_def example_env_def example_govee_def example_device_def)

text \<open>
  Claim C7, amended: when the state of a push names a device that is not in the registry,
  neither before nor after one device-list refresh that returns normally, the push is
  dropped silently: the callback returns normally and leaves the client exactly as the
  refresh left it, so the push is applied to no device and raises no update event.
\<close>

theorem C7_unresolved_push_dropped:
  assumes "map_of raw_json ''state'' = Some (JObj st)"
    and "map_of st ''device'' = Some device_identifer"
    and "find_device g device_identifer = Inr None"
    and "http_update_device_list ev g = (None, g1)"
    and "find_device g1 device_identifer = Inr None"
  shows "mqtt_topic_callback ev Color g raw_json = (None, g1)"
  using assms by (simp add: mqtt_topic_callback_def dict_getitem_def)

theorem C7_unresolved_push_dropped_witness:
  "mqtt_topic_callback example_env example_Color example_govee
     [(''proType'', JNum 0),
      (''state'', JObj [(''onOff'', JNum 1), (''brightness'', JNum 159), (''connected'', JStr ''true''),
                        (''sku'', JStr ''H6163''), (''device'', JStr ''11:22:33:44:55:66:77:88'')])]
   = (None, example_govee\<lparr>log := [HttpPost ''/device/rest/devices/v1/list'']\<rparr>)"
proof -
  have refresh: "http_update_device_list example_env example_govee
      = (None, example_govee\<lparr>log := [HttpPost ''/device/rest/devices/v1/list'']\<rparr>)"
    by (simp add: http_update_device_list_def login_if_required_def token_is_valid_def
        emit_def Let_def example_env_def example_govee_def)
  show ?thesis
    by (rule C7_unresolved_push_dropped
        [where st = "[(''onOff'', JNum 1), (''brightness'', JNum 159), (''connected'', JStr ''true''),
                      (''sku'', JStr ''H6163''), (''device'', JStr ''11:22:33:44:55:66:77:88'')]"
           and device_identifer = "JStr ''11:22:33:44:55:66:77:88''", OF _ _ _ refresh])
      (simp_all add: example_govee_def)
qed

section \<open>The broker-session reset\<close>

lemma remove_status_notify_heap:
  "heap (remove_status_notify r s g) = (heap g)(r := snd (remove_connection_status (heap g r) s))"
  by (simp add: remove_status_notify_def set_device_def emit_def Let_def split: prod.splits)

lemma remove_status_notify_log_eq:
  "log (remove_status_notify r s g) =
     log g @ (if fst (remove_connection_status (heap g r) s) then [OnDeviceUpdate r None] else [])"
  by (simp add: remove_status_notify_def set_device_def emit_def Let_def split: prod.splits)

lemma fold_remove_status_notify:
  "distinct (map snd ds) \<Longrightarrow>
   log (fold (\<lambda>(i, r). remove_status_notify r s) ds g) =
     log g @ map (\<lambda>r. OnDeviceUpdate r None)
               (filter (\<lambda>r. fst (remove_connection_status (heap g r) s)) (map snd ds))
   \<and> heap (fold (\<lambda>(i, r). remove_status_notify r s) ds g) =
     (\<lambda>r. if r \<in> snd ` set ds then snd (remove_connection_status (heap g r) s) else heap g r)"
proof (induction ds arbitrary: g)
  case Nil
  then show ?case by simp
next
  case (Cons x ds)
  obtain i r where x: "x = (i, r)" by (cases x)
  let ?g1 = "remove_status_notify r s g"
  from Cons.prems x have r: "r \<notin> snd ` set ds" and dist: "distinct (map snd ds)" by auto
  have same: "heap ?g1 r' = heap g r'" if "r' \<in> snd ` set ds" for r'
    using that r by (auto simp: remove_status_notify_heap)
  have filt: "filter (\<lambda>r. fst (remove_connection_status (heap ?g1 r) s)) (map snd ds)
            = filter (\<lambda>r. fst (remove_connection_status (heap g r) s)) (map snd ds)"
    by (rule filter_cong) (auto simp: same)
  have hp: "(\<lambda>r'. if r' \<in> snd ` set ds then snd (remove_connection_status (heap ?g1 r') s)
                   else heap ?g1 r')
          = (\<lambda>r'. if r' \<in> snd ` set (x # ds) then snd (remove_connection_status (heap g r') s)
                   else heap g r')"
    using r by (auto simp: fun_eq_iff x remove_status_notify_heap)
  from Cons.IH [OF dist, of ?g1] show ?case
    by (simp add: x filt hp remove_status_notify_log_eq)
qed

lemma remove_iot_changed:
  "connection_status d \<noteq> {} \<Longrightarrow>
   fst (remove_connection_status d {IOT_CONNECTED}) = (IOT_CONNECTED \<in> connection_status d)"
  by (auto simp: remove_connection_status_def Let_def)

lemma remove_iot_cleared:
  "IOT_CONNECTED \<notin> connection_status (snd (remove_connection_status d {IOT_CONNECTED}))"
  by (auto simp: remove_connection_status_def Let_def)

lemma clear_iot_flags_eq:
  assumes "distinct (map snd (devices g))"
    and "\<forall>r \<in> snd ` set (devices g). connection_status (heap g r) \<noteq> {}"
  shows "log (clear_iot_flags g) =
     log g @ map (\<lambda>r. OnDeviceUpdate r None)
               (filter (\<lambda>r. IOT_CONNECTED \<in> connection_status (heap g r)) (map snd (devices g)))"
    and "\<forall>r \<in> snd ` set (devices g). IOT_CONNECTED \<notin> connection_status (heap (clear_iot_flags g) r)"
proof -
  note f = fold_remove_status_notify [OF assms(1), of "{IOT_CONNECTED}" g]
  have "filter (\<lambda>r. fst (remove_connection_status (heap g r) {IOT_CONNECTED})) (map snd (devices g))
      = filter (\<lambda>r. IOT_CONNECTED \<in> connection_status (heap g r)) (map snd (devices g))"
  proof (rule filter_cong [OF refl])
    fix r assume "r \<in> set (map snd (devices g))"
    then have "connection_status (heap g r) \<noteq> {}" using assms(2) by auto
    then show "fst (remove_connection_status (heap g r) {IOT_CONNECTED})
        = (IOT_CONNECTED \<in> connection_status (heap g r))"
      by (rule remove_iot_changed)
  qed
  then show "log (clear_iot_flags g) =
     log g @ map (\<lambda>r. OnDeviceUpdate r None)
               (filter (\<lambda>r. IOT_CONNECTED \<in> connection_status (heap g r)) (map snd (devices g)))"
    using f by (simp add: clear_iot_flags_def)
  show "\<forall>r \<in> snd ` set (devices g). IOT_CONNECTED \<notin> connection_status (heap (clear_iot_flags g) r)"
    using f remove_iot_cleared by (auto simp: clear_iot_flags_def)
qed

text \<open>
  Claim C8, as stated, fails: in a reset the flags are cleared, and the update events
  raised, before the new broker session is connected, not after.
\<close>

theorem C8_flags_cleared_before_connect:
  "log (snd (login_if_required example_env example_govee_expired))
     = [HttpPost ''/account/rest/account/v1/login'', MqttDisconnect, OnDeviceUpdate 0 None,
        MqttCreate, MqttConnect, MqttSubscribe ''GA/1'']
   \<and> \<not> precedes MqttConnect (OnDeviceUpdate 0 None)
         (log (snd (login_if_required example_env example_govee_expired)))
   \<and> precedes (OnDeviceUpdate 0 None) MqttConnect
         (log (snd (login_if_required example_env example_govee_expired)))"
proof -
  have "log (snd (login_if_required example_env example_govee_expired))
     = [HttpPost ''/account/rest/account/v1/login'', MqttDisconnect, OnDeviceUpdate 0 None,
        MqttCreate, MqttConnect, MqttSubscribe ''GA/1'']"
    by (simp add: login_if_required_def token_is_valid_def mqtt_reconnect_def clear_iot_flags_def
        remove_status_notify_def remove_connection_status_def set_device_def emit_def Let_def
        example_govee_expired_def example_govee_def example_env_def example_device_def
        GoveeDevice_init_def)
  then show ?thesis by (simp add: precedes_def)
qed

text \<open>
  Claim C8, amended: in every broker-session reset the old session, if any, is disconnected
  first; then \<^verbatim>\<open>IOT_CONNECTED\<close> is cleared on every known device, with one update event per
  device whose flag was set, in the order of the registry; and only then is the new session
  created and connected, and, once connected, subscribed.
\<close>

theorem C8_reset_order:
  assumes "distinct (map snd (devices g))"
    and "\<forall>r \<in> snd ` set (devices g). connection_status (heap g r) \<noteq> {}"
  shows "log (snd (mqtt_reconnect ev g tpc)) =
           (log g @ (if mqtt_connection g then [MqttDisconnect] else [])
              @ map (\<lambda>r. OnDeviceUpdate r None)
                  (filter (\<lambda>r. IOT_CONNECTED \<in> connection_status (heap g r)) (map snd (devices g)))
              @ [MqttCreate, MqttConnect])
           @ (if mqtt_connect_ok ev
                   (log g @ (if mqtt_connection g then [MqttDisconnect] else [])
                      @ map (\<lambda>r. OnDeviceUpdate r None)
                          (filter (\<lambda>r. IOT_CONNECTED \<in> connection_status (heap g r))
                             (map snd (devices g)))
                      @ [MqttCreate, MqttConnect])
              then [MqttSubscribe tpc] else [])
       \<and> (\<forall>r \<in> snd ` set (devices g).
             IOT_CONNECTED \<notin> connection_status (heap (snd (mqtt_reconnect ev g tpc)) r))"
proof -
  let ?g1 = "if mqtt_connection g then emit MqttDisconnect g else g"
  have d1: "devices ?g1 = devices g" and h1: "heap ?g1 = heap g"
    and l1: "log ?g1 = log g @ (if mqtt_connection g then [MqttDisconnect] else [])"
    by (simp_all add: emit_def)
  have a1: "distinct (map snd (devices ?g1))"
    and a2: "\<forall>r \<in> snd ` set (devices ?g1). connection_status (heap ?g1 r) \<noteq> {}"
    using assms by (simp_all only: d1 h1)
  note c = clear_iot_flags_eq [OF a1 a2]
  have lg: "log (clear_iot_flags ?g1) =
      log g @ (if mqtt_connection g then [MqttDisconnect] else [])
        @ map (\<lambda>r. OnDeviceUpdate r None)
            (filter (\<lambda>r. IOT_CONNECTED \<in> connection_status (heap g r)) (map snd (devices g)))"
    using c(1) by (simp only: d1 h1 l1 append_assoc)
  have cl: "\<forall>r \<in> snd ` set (devices g).
      IOT_CONNECTED \<notin> connection_status (heap (clear_iot_flags ?g1) r)"
    using c(2) by (simp only: d1)
  have hp: "heap (snd (mqtt_reconnect ev g tpc)) = heap (clear_iot_flags ?g1)"
    by (simp add: mqtt_reconnect_def Let_def emit_def)
  have "log (snd (mqtt_reconnect ev g tpc)) =
      (log (clear_iot_flags ?g1) @ [MqttCreate, MqttConnect])
      @ (if mqtt_connect_ok ev (log (clear_iot_flags ?g1) @ [MqttCreate, MqttConnect])
         then [MqttSubscribe tpc] else [])"
    by (simp add: mqtt_reconnect_def Let_def emit_def)
  then show ?thesis using cl by (simp only: lg hp append_assoc)
qed


theorem C8_reset_order_witness:
  "log (snd (mqtt_reconnect example_env example_govee_expired ''GA/1''))
     = [MqttDisconnect, OnDeviceUpdate 0 None, MqttCreate, MqttConnect, MqttSubscribe ''GA/1'']
   \<and> IOT_CONNECTED \<in> connection_status (heap example_govee_expired 0)
   \<and> IOT_CONNECTED \<notin> connection_status
         (heap (snd (mqtt_reconnect example_env example_govee_expired ''GA/1'')) 0)"
proof -
  have a1: "distinct (map snd (devices example_govee_expired))"
    by (simp add: example_govee_expired_def example_govee_def)
  have a2: "\<forall>r \<in> snd ` set (devices example_govee_expired).
      connection_status (heap example_govee_expired r) \<noteq> {}"
    by (simp add: example_govee_expired_def example_govee_def)
  show ?thesis
    using C8_reset_order [OF a1 a2, of example_env "''GA/1''"]
    by (simp add: example_govee_expired_def example_govee_def example_env_def)
qed

end
